theory Spec2Isabelle
  imports Complex_Main
begin

section \<open>Python values and exceptions\<close>

text \<open>
  The program is one Python module, \<^verbatim>\<open>main.py\<close>. Its values are the ones a JSON
  document decodes to (the extractor's answer is decoded JSON and every later value is
  derived from it), so the value universe of the model is the JSON one. A dict is an
  association list; \<open>dict_get\<close> reads the first binding of a key. Strings are ASCII
  strings: a \<open>char\<close> is one code point below 128.
\<close>

datatype error =
    ValueError | AttributeError | TypeError | OverflowError
  | JSONDecodeError | UnknownValueError | RequestError
  | UpstreamError string

text \<open>A Python float: the finite values as reals, and the three special values.\<close>

datatype pyfloat = Fin real | PosInf | NegInf | NaN

fun float_lt :: "pyfloat \<Rightarrow> pyfloat \<Rightarrow> bool" where
  "float_lt (Fin a) (Fin b) = (a < b)"
| "float_lt (Fin a) PosInf = True"
| "float_lt NegInf (Fin b) = True"
| "float_lt NegInf PosInf = True"
| "float_lt _ _ = False"

datatype json =
    JNull | JBool bool | JInt int | JFloat pyfloat | JStr string
  | JArr "json list" | JObj "(string \<times> json) list"

text \<open>Truth value testing, as \<^verbatim>\<open>not x\<close> and \<^verbatim>\<open>x or y\<close> use it.\<close>

fun truthy :: "json \<Rightarrow> bool" where
  "truthy JNull = False"
| "truthy (JBool b) = b"
| "truthy (JInt i) = (i \<noteq> 0)"
| "truthy (JFloat f) = (f \<noteq> Fin 0)"
| "truthy (JStr s) = (s \<noteq> [])"
| "truthy (JArr xs) = (xs \<noteq> [])"
| "truthy (JObj kvs) = (kvs \<noteq> [])"

definition py_or :: "json \<Rightarrow> json \<Rightarrow> json" where
  "py_or a b = (if truthy a then a else b)"

text \<open>\<^verbatim>\<open>d.get(k)\<close>: the value, \<^verbatim>\<open>None\<close> for a missing key, and an
  \<^verbatim>\<open>AttributeError\<close> when \<open>d\<close> is no dict (str, list, int and the others have no
  \<^verbatim>\<open>get\<close>).\<close>

fun dict_get :: "json \<Rightarrow> string \<Rightarrow> error + json" where
  "dict_get (JObj kvs) k = Inr (case map_of kvs k of None \<Rightarrow> JNull | Some v \<Rightarrow> v)"
| "dict_get _ k = Inl AttributeError"

section \<open>Reading an integer in base 16\<close>

text \<open>
  \<^verbatim>\<open>int(s, 16)\<close> on an ASCII string: surrounding blanks (tab, line feed, vertical tab,
  form feed, carriage return, space) are dropped, one sign
  is allowed, then an optional \<^verbatim>\<open>0x\<close> prefix, then digits with single underscores
  between them. Anything else is a \<^verbatim>\<open>ValueError\<close>.
\<close>

definition digit_value :: "char \<Rightarrow> nat option" where
  "digit_value c =
     (let n = (of_char c :: nat) in
      if 48 \<le> n \<and> n \<le> 57 then Some (n - 48)
      else if 97 \<le> n \<and> n \<le> 122 then Some (n - 87)
      else if 65 \<le> n \<and> n \<le> 90 then Some (n - 55)
      else None)"

definition py_isspace :: "char \<Rightarrow> bool" where
  "py_isspace c =
     (let n = (of_char c :: nat) in (9 \<le> n \<and> n \<le> 13) \<or> n = 32)"

definition strip_ws :: "string \<Rightarrow> string" where
  "strip_ws s = rev (dropWhile py_isspace (rev (dropWhile py_isspace s)))"

fun digits_value :: "nat \<Rightarrow> bool \<Rightarrow> int \<Rightarrow> string \<Rightarrow> int option" where
  "digits_value b prev_us acc [] = (if prev_us then None else Some acc)"
| "digits_value b prev_us acc (c # cs) =
     (if c = CHR ''_'' then (if prev_us then None else digits_value b True acc cs)
      else (case digit_value c of
              None \<Rightarrow> None
            | Some d \<Rightarrow> if d < b then digits_value b False (acc * int b + int d) cs else None))"

definition skip_sign :: "string \<Rightarrow> int \<times> string" where
  "skip_sign s =
     (case s of
        [] \<Rightarrow> (1, [])
      | c # r \<Rightarrow> if c = CHR ''+'' then (1, r) else if c = CHR ''-'' then (- 1, r) else (1, s))"

definition skip_0x :: "string \<Rightarrow> string" where
  "skip_0x s =
     (case s of
        c # x # r \<Rightarrow>
          if c = CHR ''0'' \<and> (x = CHR ''x'' \<or> x = CHR ''X'')
          then (case r of [] \<Rightarrow> r | u # r' \<Rightarrow> if u = CHR ''_'' then r' else r)
          else s
      | _ \<Rightarrow> s)"

definition py_int16 :: "string \<Rightarrow> error + int" where
  "py_int16 s =
     (let (sgn, u) = skip_sign (strip_ws s); v = skip_0x u in
      if v = [] \<or> hd v = CHR ''_'' then Inl ValueError
      else (case digits_value 16 False 0 v of
              None \<Rightarrow> Inl ValueError
            | Some n \<Rightarrow> Inr (sgn * n)))"

section \<open>The colour resolver\<close>

text \<open>\<^verbatim>\<open>COLOR_HEX_MAP\<close>, in the order the dict literal lists it (the order
  \<^verbatim>\<open>items()\<close> enumerates).\<close>

definition COLOR_HEX_MAP :: "(string \<times> string) list" where
  "COLOR_HEX_MAP =
     [(''1'', ''#a4bdfc''), (''2'', ''#7ae7bf''), (''3'', ''#dbadff''), (''4'', ''#ff887c''),
      (''5'', ''#fbd75b''), (''6'', ''#ffb878''), (''7'', ''#46d6db''), (''8'', ''#e1e1e1''),
      (''9'', ''#5484ed''), (''10'', ''#51b749''), (''11'', ''#dc2127'')]"

text \<open>
  \<^verbatim>\<open>hex_to_rgb\<close>: \<^verbatim>\<open>lstrip("#")\<close> drops every leading \<^verbatim>\<open>#\<close>; the three
  slices \<^verbatim>\<open>[0:2]\<close>, \<^verbatim>\<open>[2:4]\<close>, \<^verbatim>\<open>[4:6]\<close> are read in this order and the first
  one that is no number raises.
\<close>

definition hex_to_rgb :: "string \<Rightarrow> error + (int \<times> int \<times> int)" where
  "hex_to_rgb hex_color =
     (let h = dropWhile (\<lambda>c. c = CHR ''#'') hex_color in
      case py_int16 (take 2 h) of
        Inl e \<Rightarrow> Inl e
      | Inr r \<Rightarrow>
          (case py_int16 (take 2 (drop 2 h)) of
             Inl e \<Rightarrow> Inl e
           | Inr g \<Rightarrow>
               (case py_int16 (take 2 (drop 4 h)) of
                  Inl e \<Rightarrow> Inl e
                | Inr b \<Rightarrow> Inr (r, g, b))))"

text \<open>
  The distance of the loop body. The sum of squares is an integer far below \<open>2^53\<close>,
  so its conversion to a float is exact; the square root is taken over the reals, which
  orders these values exactly as the correctly rounded float square root does (two
  different integers of this size have square roots further apart than a rounding error).
\<close>

definition rgb_dist :: "int \<times> int \<times> int \<Rightarrow> int \<times> int \<times> int \<Rightarrow> pyfloat" where
  "rgb_dist t p =
     (case t of (t0, t1, t2) \<Rightarrow> case p of (r, g, b) \<Rightarrow>
        Fin (sqrt (real_of_int ((t0 - r) ^ 2 + (t1 - g) ^ 2 + (t2 - b) ^ 2))))"

text \<open>The \<^verbatim>\<open>for\<close> loop over the palette, with \<open>(min_dist, best_id)\<close> as its state.\<close>

fun nearest_loop ::
  "int \<times> int \<times> int \<Rightarrow> (string \<times> string) list \<Rightarrow> pyfloat \<times> string \<Rightarrow> error + (pyfloat \<times> string)"
where
  "nearest_loop target_rgb [] st = Inr st"
| "nearest_loop target_rgb ((cid, hex_val) # rest) (min_dist, best_id) =
     (case hex_to_rgb hex_val of
        Inl e \<Rightarrow> Inl e
      | Inr p \<Rightarrow>
          (let dist = rgb_dist target_rgb p in
           if float_lt dist min_dist then nearest_loop target_rgb rest (dist, cid)
           else nearest_loop target_rgb rest (min_dist, best_id)))"

text \<open>\<^verbatim>\<open>get_nearest_color_id\<close>. A value that is no string has no \<^verbatim>\<open>lstrip\<close>.\<close>

fun get_nearest_color_id :: "json \<Rightarrow> error + string" where
  "get_nearest_color_id (JStr hex_input) =
     (case hex_to_rgb hex_input of
        Inl e \<Rightarrow> Inl e
      | Inr target_rgb \<Rightarrow>
          (case nearest_loop target_rgb COLOR_HEX_MAP (PosInf, ''1'') of
             Inl e \<Rightarrow> Inl e
           | Inr (min_dist, best_id) \<Rightarrow> Inr best_id))"
| "get_nearest_color_id _ = Inl AttributeError"

section \<open>Dates and times\<close>

text \<open>
  A \<^verbatim>\<open>datetime.datetime\<close> value. \<open>tzinfo\<close> is \<open>None\<close> for a naive value and the
  UTC offset, in microseconds, for an aware one.
\<close>

record datetime =
  year :: int
  month :: int
  day :: int
  hour :: int
  minute :: int
  second :: int
  microsecond :: int
  tzinfo :: "int option"

text \<open>Decimal output, as \<^verbatim>\<open>"%0wd" % n\<close> prints it.\<close>

definition digit_char :: "nat \<Rightarrow> char" where
  "digit_char n = ''0123456789'' ! (n mod 10)"

function show_nat :: "nat \<Rightarrow> string" where
  "show_nat n = (if n < 10 then [digit_char n] else show_nat (n div 10) @ [digit_char n])"
  by pat_completeness auto
termination
  by (relation "measure id") auto

declare show_nat.simps [simp del]

definition zero_pad :: "nat \<Rightarrow> string \<Rightarrow> string" where
  "zero_pad w s = replicate (w - length s) (CHR ''0'') @ s"

definition fmt_0d :: "nat \<Rightarrow> int \<Rightarrow> string" where
  "fmt_0d w n =
     (if n < 0 then CHR ''-'' # zero_pad (w - 1) (show_nat (nat (- n)))
      else zero_pad w (show_nat (nat n)))"

text \<open>\<^verbatim>\<open>strftime("%Y-%m-%d")\<close>, for the years from 1000 on (where every platform
  prints four digits).\<close>

definition strftime_Ymd :: "datetime \<Rightarrow> string" where
  "strftime_Ymd d = fmt_0d 4 (year d) @ ''-'' @ fmt_0d 2 (month d) @ ''-'' @ fmt_0d 2 (day d)"

text \<open>The UTC offset of \<^verbatim>\<open>isoformat\<close>: \<^verbatim>\<open>+HH:MM\<close>, with seconds and
  microseconds only when they are not zero.\<close>

definition format_offset :: "int \<Rightarrow> string" where
  "format_offset off =
     (let a = \<bar>off\<bar>;
          hh = a div 3600000000;
          mm = (a mod 3600000000) div 60000000;
          ss = (a mod 60000000) div 1000000;
          us = a mod 1000000
      in (if off < 0 then ''-'' else ''+'') @ fmt_0d 2 hh @ '':'' @ fmt_0d 2 mm @
         (if ss \<noteq> 0 \<or> us \<noteq> 0
          then '':'' @ fmt_0d 2 ss @ (if us \<noteq> 0 then ''.'' @ fmt_0d 6 us else [])
          else []))"

definition isoformat_naive :: "datetime \<Rightarrow> string" where
  "isoformat_naive d =
     fmt_0d 4 (year d) @ ''-'' @ fmt_0d 2 (month d) @ ''-'' @ fmt_0d 2 (day d) @ ''T'' @
     fmt_0d 2 (hour d) @ '':'' @ fmt_0d 2 (minute d) @ '':'' @ fmt_0d 2 (second d) @
     (if microsecond d \<noteq> 0 then ''.'' @ fmt_0d 6 (microsecond d) else [])"

definition isoformat :: "datetime \<Rightarrow> string" where
  "isoformat d =
     isoformat_naive d @ (case tzinfo d of None \<Rightarrow> [] | Some off \<Rightarrow> format_offset off)"

subsection \<open>Reading an ISO string\<close>

text \<open>
  \<^verbatim>\<open>datetime.fromisoformat\<close> is library code, and the texts it reads differ from one
  version of the library to the next (the later ones read \<^verbatim>\<open>Z\<close>, \<^verbatim>\<open>+0500\<close> and the
  basic format as well). Its reading of a string is therefore a parameter, \<open>reader\<close>:
  the value it returns, naive or aware, or the exception it raises. What the model fixes
  is the call itself: an argument that is no string is a \<^verbatim>\<open>TypeError\<close>.
\<close>

fun fromisoformat :: "(string \<Rightarrow> error + datetime) \<Rightarrow> json \<Rightarrow> error + datetime" where
  "fromisoformat reader (JStr s) = reader s"
| "fromisoformat reader _ = Inl TypeError"

subsection \<open>The operating timezone\<close>

text \<open>
  \<^verbatim>\<open>EST = pytz.timezone("America/New_York")\<close>. The zone's table of offsets is data of
  the timezone database, not of this program: it is the parameter \<open>zone\<close>, which gives
  the offset from UTC, in minutes, that the zone has at a wall-clock time.
  \<^verbatim>\<open>EST.localize\<close> refuses a value that already has a \<^verbatim>\<open>tzinfo\<close>; it looks one
  day back and one day ahead of the value, which overflows on the first and on the last
  day a \<^verbatim>\<open>datetime\<close> can hold; otherwise it keeps the wall-clock time and attaches the
  offset.
\<close>

definition localize :: "(datetime \<Rightarrow> int) \<Rightarrow> datetime \<Rightarrow> error + datetime" where
  "localize zone dt =
     (if tzinfo dt \<noteq> None then Inl ValueError
      else if (year dt = 1 \<and> month dt = 1 \<and> day dt = 1) \<or>
              (year dt = 9999 \<and> month dt = 12 \<and> day dt = 31) then Inl OverflowError
      else Inr (dt\<lparr>tzinfo := Some (zone dt * 60000000)\<rparr>))"

section \<open>Collaborators and their calls\<close>

text \<open>
  The program talks to the audio codec, the speech recogniser, the language model and
  the calendar backend. Each of them is a field of the record \<open>world\<close>: the answer it
  gives to a request, or the exception it raises. Each use is written to a log of calls,
  in program order, so that "no call was made" is a statement about the log.
  \<^verbatim>\<open>print\<close> is logged as well. The record also holds what is taken from libraries as
  given: the zone's table of offsets, the JSON value scanner and the reader of ISO
  strings.
\<close>

datatype call =
    Transcode
  | RecordAudio
  | RecognizeGoogle
  | ChatCompletion string
  | Print string
  | TokenRequest
  | EventRequest json json

record world =
  AUTH_PASSWORD :: string
  now :: datetime
  zone :: "datetime \<Rightarrow> int"
  iso_reader :: "string \<Rightarrow> error + datetime"
  transcode :: "string \<Rightarrow> error + string"
  record_audio :: "string \<Rightarrow> error + string"
  recognize_google :: "string \<Rightarrow> error + string"
  chat_completion :: "string \<Rightarrow> error + string option"
  json_scan :: "string \<Rightarrow> error + (json \<times> string)"
  token_request :: "error + json"
  event_request :: "json \<Rightarrow> json \<Rightarrow> error + json"

text \<open>The upload and the header of one request.\<close>

record request =
  authorization :: string
  content_type :: "string option"
  file_bytes :: string

text \<open>A computation: the calls it made, and its value or the exception that ended it.\<close>

type_synonym 'a io = "call list \<times> (error + 'a)"

definition io_bind :: "'a io \<Rightarrow> ('a \<Rightarrow> 'b io) \<Rightarrow> 'b io" where
  "io_bind m f =
     (case m of
        (cs, Inl e) \<Rightarrow> (cs, Inl e)
      | (cs, Inr x) \<Rightarrow> (case f x of (cs', r) \<Rightarrow> (cs @ cs', r)))"

definition io_call :: "call \<Rightarrow> error + 'a \<Rightarrow> 'a io" where
  "io_call c r = ([c], r)"

definition io_pure :: "error + 'a \<Rightarrow> 'a io" where
  "io_pure r = ([], r)"

section \<open>The event builder\<close>

text \<open>
  \<^verbatim>\<open>add_event\<close> up to the request: the \<^verbatim>\<open>event\<close> dict. \<^verbatim>\<open>localize\<close> runs
  first and the colour is resolved after it, so a value that is not naive raises before
  the colour is looked at.
\<close>

definition event_dict :: "(datetime \<Rightarrow> int) \<Rightarrow> json \<Rightarrow> json \<Rightarrow> datetime \<Rightarrow> error + json" where
  "event_dict zn summary color_hex start_datetime_est =
     (case localize zn start_datetime_est of
        Inl e \<Rightarrow> Inl e
      | Inr localized \<Rightarrow>
          (let iso_dt = isoformat localized in
           case get_nearest_color_id (py_or color_hex (JStr ''#008080'')) of
             Inl e \<Rightarrow> Inl e
           | Inr color_id \<Rightarrow>
               Inr (JObj
                 [(''summary'', summary),
                  (''start'', JObj [(''dateTime'', JStr iso_dt), (''timeZone'', JStr ''America/New_York'')]),
                  (''end'', JObj [(''dateTime'', JStr iso_dt), (''timeZone'', JStr ''America/New_York'')]),
                  (''colorId'', JStr color_id)])))"

text \<open>\<^verbatim>\<open>add_event\<close>: the request carries the bearer token and the event; its answer
  (after \<^verbatim>\<open>raise_for_status\<close> and \<^verbatim>\<open>json()\<close>) is the collaborator's.\<close>

definition add_event :: "world \<Rightarrow> json \<Rightarrow> json \<Rightarrow> json \<Rightarrow> datetime \<Rightarrow> json io" where
  "add_event w access_token summary color_hex start_datetime_est =
     io_bind (io_pure (event_dict (zone w) summary color_hex start_datetime_est))
       (\<lambda>event. io_call (EventRequest access_token event) (event_request w access_token event))"

text \<open>\<^verbatim>\<open>get_access_token\<close>: the body of the request is made of constants of the
  process; the answer is read with \<^verbatim>\<open>.get("access_token")\<close>.\<close>

definition get_access_token :: "world \<Rightarrow> json io" where
  "get_access_token w =
     io_bind (io_call TokenRequest (token_request w))
       (\<lambda>body. io_pure (dict_get body ''access_token''))"

section \<open>The extraction step\<close>

text \<open>
  \<^verbatim>\<open>json.loads\<close> is library code. Its value grammar is the parameter \<open>scan\<close> (the
  value read at the start of a text, and the rest of the text). What is modelled is the
  decoder around it: leading whitespace is skipped, a text whose first character cannot
  start a JSON value is refused before anything is read, and so is one with anything but
  whitespace after the value.
\<close>

definition json_ws :: "char \<Rightarrow> bool" where
  "json_ws c = (c = CHR '' '' \<or> c = CHR 0x09 \<or> c = CHR 0x0A \<or> c = CHR 0x0D)"

definition value_start :: "char \<Rightarrow> bool" where
  "value_start c = (c = CHR 0x22 \<or> c \<in> set ''{[ntf-0123456789NI'')"

definition json_loads :: "(string \<Rightarrow> error + (json \<times> string)) \<Rightarrow> string \<Rightarrow> error + json" where
  "json_loads scan s =
     (case dropWhile json_ws s of
        [] \<Rightarrow> Inl JSONDecodeError
      | c # t \<Rightarrow>
          if \<not> value_start c then Inl JSONDecodeError
          else (case scan (c # t) of
                  Inl e \<Rightarrow> Inl e
                | Inr (v, rest) \<Rightarrow>
                    if dropWhile json_ws rest = [] then Inr v else Inl JSONDecodeError))"

text \<open>\<^verbatim>\<open>s.split("\n")\<close> and \<^verbatim>\<open>"\n".join(xs)\<close>.\<close>

fun split_lines :: "string \<Rightarrow> string list" where
  "split_lines [] = [[]]"
| "split_lines (c # cs) =
     (if c = CHR 0x0A then [] # split_lines cs
      else (case split_lines cs of [] \<Rightarrow> [[c]] | l # ls \<Rightarrow> (c # l) # ls))"

fun join_lines :: "string list \<Rightarrow> string" where
  "join_lines [] = []"
| "join_lines [l] = l"
| "join_lines (l # ls) = l @ CHR 0x0A # join_lines ls"

text \<open>The fence stripping of \<^verbatim>\<open>call_gpt\<close>: \<^verbatim>\<open>content.split("\n")[1:-1]\<close>, joined.\<close>

definition strip_fence :: "string \<Rightarrow> string" where
  "strip_fence content =
     (if take 3 content = [CHR 0x60, CHR 0x60, CHR 0x60]
      then join_lines (butlast (tl (split_lines content)))
      else content)"

definition prompt :: "datetime \<Rightarrow> string \<Rightarrow> string" where
  "prompt today user_input =
     ''Assume today'' @ [CHR 0x27] @ ''s date is '' @ strftime_Ymd today @ ''.'' @ [CHR 0x0A] @
     ''Extract from this text the title, the color (as hex if named or hex given, else null), '' @
     ''and the datetime (ISO format, or null if none).'' @ [CHR 0x0A, CHR 0x0A] @
     ''Text: '' @ [CHR 0x22] @ user_input @ [CHR 0x22, CHR 0x0A, CHR 0x0A] @
     ''Return ONLY a JSON object with keys: title, color, datetime.'' @
     ''If the date is not specified, set it to today at noon or tomorrow at noon if it'' @
     [CHR 0x27] @ ''s already past noon.'' @
     ''If the color is not mentioned, set it to teal.'' @
     ''If datetime is before or at now, return null for datetime.''"

text \<open>
  \<^verbatim>\<open>call_gpt\<close>. A missing message content (\<^verbatim>\<open>None\<close>) has no \<^verbatim>\<open>startswith\<close>.
  The stripped text is bound to \<^verbatim>\<open>content\<close> and printed; the value returned is
  \<^verbatim>\<open>json.loads(response.choices[0].message.content)\<close>, the message as it came.
\<close>

definition call_gpt :: "world \<Rightarrow> string \<Rightarrow> json io" where
  "call_gpt w user_input =
     io_bind (io_call (ChatCompletion (prompt (now w) user_input))
                (chat_completion w (prompt (now w) user_input)))
       (\<lambda>message_content.
          case message_content of
            None \<Rightarrow> io_pure (Inl AttributeError)
          | Some raw \<Rightarrow>
              (let content = strip_fence raw in
               io_bind (io_call (Print content) (Inr ()))
                 (\<lambda>_. io_pure (json_loads (json_scan w) raw))))"

section \<open>The endpoint\<close>

text \<open>
  \<^verbatim>\<open>process_audio\<close>, from the first line of its body: the framework has bound the
  upload and the \<^verbatim>\<open>Authorization\<close> header by then. It ends with an
  \<^verbatim>\<open>HTTPException\<close>, with a returned body (HTTP 200), or with an exception nobody
  catches (HTTP 500).
\<close>

datatype response = HTTPException nat string | Returned json | Unhandled error

fun status_code :: "response \<Rightarrow> nat" where
  "status_code (HTTPException code detail) = code"
| "status_code (Returned body) = 200"
| "status_code (Unhandled e) = 500"

definition ALLOWED_TYPES :: "string list" where
  "ALLOWED_TYPES = [''audio/wav'', ''audio/x-wav'', ''audio/flac'', ''audio/mpeg'', ''audio/mp3'']"

definition WAV_TYPES :: "string list" where
  "WAV_TYPES = [''audio/wav'', ''audio/x-wav'']"

definition type_in :: "string option \<Rightarrow> string list \<Rightarrow> bool" where
  "type_in ct ts = (case ct of None \<Rightarrow> False | Some t \<Rightarrow> t \<in> set ts)"

text \<open>Lines 165 to 178: the upload is read, transcoded unless it is WAV already, and
  recorded by the recogniser.\<close>

definition load_audio :: "world \<Rightarrow> request \<Rightarrow> string io" where
  "load_audio w req =
     io_bind (if \<not> type_in (content_type req) WAV_TYPES
              then io_call Transcode (transcode w (file_bytes req))
              else io_pure (Inr (file_bytes req)))
       (\<lambda>wav. io_call RecordAudio (record_audio w wav))"

text \<open>Lines 186 to 197: from the transcript to the response body.\<close>

definition extract_and_create :: "world \<Rightarrow> string \<Rightarrow> json io" where
  "extract_and_create w text =
     io_bind (call_gpt w text) (\<lambda>gpt_data.
     io_bind (io_pure (dict_get gpt_data ''datetime'')) (\<lambda>dt.
       if \<not> truthy dt
       then io_pure (Inr (JObj [(''text'', JStr text),
                                (''error'', JStr ''Invalid or past datetime in input'')]))
       else
         io_bind (get_access_token w) (\<lambda>access_token.
         io_bind (io_pure (dict_get gpt_data ''title'')) (\<lambda>title.
         io_bind (io_pure (dict_get gpt_data ''color'')) (\<lambda>color.
           (let summary = py_or title (JStr ''No Title'');
                color_hex = py_or color (JStr ''#008080'')
            in
            io_bind (io_pure (fromisoformat (iso_reader w) dt)) (\<lambda>start_dt.
            io_bind (add_event w access_token summary color_hex start_dt) (\<lambda>event_result.
              io_pure (Inr (JObj [(''text'', JStr text), (''parsed'', gpt_data),
                                  (''calendar_event'', event_result)]))))))))))"

text \<open>The \<^verbatim>\<open>try\<close> around \<^verbatim>\<open>recognize_google\<close>: the two exceptions it names end the
  request with a body; any other exception is not caught.\<close>

definition transcribe_and_go :: "world \<Rightarrow> string \<Rightarrow> json io" where
  "transcribe_and_go w audio_record =
     (case recognize_google w audio_record of
        Inl UnknownValueError \<Rightarrow>
          ([RecognizeGoogle],
           Inr (JObj [(''text'', JStr []), (''error'', JStr ''Could not understand audio'')]))
      | Inl RequestError \<Rightarrow>
          ([RecognizeGoogle],
           Inr (JObj [(''text'', JStr []), (''error'', JStr ''Speech Recognition service error'')]))
      | Inl e \<Rightarrow> ([RecognizeGoogle], Inl e)
      | Inr text \<Rightarrow> io_bind ([RecognizeGoogle], Inr ()) (\<lambda>_. extract_and_create w text))"

definition to_response :: "json io \<Rightarrow> call list \<times> response" where
  "to_response m = (case m of (cs, Inl e) \<Rightarrow> (cs, Unhandled e) | (cs, Inr body) \<Rightarrow> (cs, Returned body))"

definition process_audio :: "world \<Rightarrow> request \<Rightarrow> call list \<times> response" where
  "process_audio w req =
     (if authorization req \<noteq> AUTH_PASSWORD w then ([], HTTPException 401 ''Unauthorized'')
      else if \<not> type_in (content_type req) ALLOWED_TYPES
      then ([], HTTPException 400 ''Unsupported file type'')
      else to_response (io_bind (load_audio w req) (transcribe_and_go w)))"

section \<open>Notions of the specification\<close>

text \<open>
  A colour input of the specification: six hexadecimal digits. \<open>rgb_of_hex6\<close> is the
  triple they denote, \<open>PALETTE_RGB\<close> the eleven palette colours as triples, in the
  palette's order, and \<open>euclid\<close> the Euclidean distance in RGB space.
\<close>

definition is_hexdigit :: "char \<Rightarrow> bool" where
  "is_hexdigit c = (case digit_value c of None \<Rightarrow> False | Some d \<Rightarrow> d < 16)"

definition hexval :: "char \<Rightarrow> int" where
  "hexval c = (case digit_value c of None \<Rightarrow> 0 | Some d \<Rightarrow> int d)"

definition is_hex6 :: "string \<Rightarrow> bool" where
  "is_hex6 h = (length h = 6 \<and> list_all is_hexdigit h)"

definition rgb_of_hex6 :: "string \<Rightarrow> int \<times> int \<times> int" where
  "rgb_of_hex6 h =
     (16 * hexval (h ! 0) + hexval (h ! 1),
      16 * hexval (h ! 2) + hexval (h ! 3),
      16 * hexval (h ! 4) + hexval (h ! 5))"

definition PALETTE_RGB :: "(string \<times> int \<times> int \<times> int) list" where
  "PALETTE_RGB =
     [(''1'', 164, 189, 252), (''2'', 122, 231, 191), (''3'', 219, 173, 255),
      (''4'', 255, 136, 124), (''5'', 251, 215, 91), (''6'', 255, 184, 120),
      (''7'', 70, 214, 219), (''8'', 225, 225, 225), (''9'', 84, 132, 237),
      (''10'', 81, 183, 73), (''11'', 220, 33, 39)]"

definition euclid :: "int \<times> int \<times> int \<Rightarrow> int \<times> int \<times> int \<Rightarrow> real" where
  "euclid x y =
     (case x of (r1, g1, b1) \<Rightarrow> case y of (r2, g2, b2) \<Rightarrow>
        sqrt (real_of_int ((r1 - r2) ^ 2 + (g1 - g2) ^ 2 + (b1 - b2) ^ 2)))"

text \<open>The body of the soft outcome for a missing datetime.\<close>

definition soft_body :: "string \<Rightarrow> json" where
  "soft_body text =
     JObj [(''text'', JStr text), (''error'', JStr ''Invalid or past datetime in input'')]"

section \<open>Example worlds\<close>

text \<open>
  Concrete collaborators, to run the endpoint on. The language model answers every prompt
  with the text \<open>raw\<close>; the JSON scanner reads the document \<open>doc\<close> as the object
  \<open>obj\<close> and refuses every other text; the zone is at five hours behind UTC (its
  offset on every January day); the clock shows 2024-01-01 15:00:00; datetime texts are
  read by \<open>example_reader\<close>.
\<close>

definition quoted :: "string \<Rightarrow> string" where
  "quoted s = CHR 0x22 # s @ [CHR 0x22]"

definition example_text :: "string \<Rightarrow> string \<Rightarrow> string \<Rightarrow> string" where
  "example_text t c d =
     ''{'' @ quoted ''title'' @ '': '' @ t @ '', '' @ quoted ''color'' @ '': '' @ c @ '', '' @
     quoted ''datetime'' @ '': '' @ d @ ''}''"

definition example_object :: "json \<Rightarrow> json \<Rightarrow> json \<Rightarrow> json" where
  "example_object t c d = JObj [(''title'', t), (''color'', c), (''datetime'', d)]"

text \<open>The library's reading of the three datetime texts of the examples: two naive
  values, and one five hours behind UTC. The example reader refuses every other text.\<close>

definition example_reader :: "string \<Rightarrow> error + datetime" where
  "example_reader s =
     (if s = ''2024-01-01T14:59:59''
      then Inr \<lparr>year = 2024, month = 1, day = 1, hour = 14, minute = 59, second = 59,
                microsecond = 0, tzinfo = None\<rparr>
      else if s = ''2024-01-02T09:00:00''
      then Inr \<lparr>year = 2024, month = 1, day = 2, hour = 9, minute = 0, second = 0,
                microsecond = 0, tzinfo = None\<rparr>
      else if s = ''2024-01-02T09:00:00-05:00''
      then Inr \<lparr>year = 2024, month = 1, day = 2, hour = 9, minute = 0, second = 0,
                microsecond = 0, tzinfo = Some (- 18000000000)\<rparr>
      else Inl ValueError)"

definition example_world :: "string \<Rightarrow> string \<Rightarrow> json \<Rightarrow> world" where
  "example_world raw doc obj =
     \<lparr>AUTH_PASSWORD = ''defaultpass'',
      now = \<lparr>year = 2024, month = 1, day = 1, hour = 15, minute = 0, second = 0,
              microsecond = 0, tzinfo = None\<rparr>,
      zone = (\<lambda>d. - 300),
      iso_reader = example_reader,
      transcode = (\<lambda>b. Inr b),
      record_audio = (\<lambda>b. Inr b),
      recognize_google = (\<lambda>a. Inr ''lunch with sam tomorrow at noon in blue''),
      chat_completion = (\<lambda>p. Inr (Some raw)),
      json_scan = (\<lambda>s. if s = doc then Inr (obj, []) else Inl JSONDecodeError),
      token_request = Inr (JObj [(''access_token'', JStr ''ya29'')]),
      event_request = (\<lambda>tok ev. Inr (JObj [(''status'', JStr ''confirmed'')]))\<rparr>"

definition example_request :: "string \<Rightarrow> string \<Rightarrow> request" where
  "example_request auth ct = \<lparr>authorization = auth, content_type = Some ct, file_bytes = ''RIFF''\<rparr>"

text \<open>The extractor answers with a datetime one second before the clock's time.\<close>

definition past_world :: world where
  "past_world =
     (let doc = example_text (quoted ''lunch'') (quoted ''#0000ff'') (quoted ''2024-01-01T14:59:59'')
      in example_world doc doc
           (example_object (JStr ''lunch'') (JStr ''#0000ff'') (JStr ''2024-01-01T14:59:59'')))"

text \<open>The extractor answers with a null datetime.\<close>

definition null_world :: world where
  "null_world =
     (let doc = example_text (quoted ''lunch'') (quoted ''#0000ff'') ''null''
      in example_world doc doc (example_object (JStr ''lunch'') (JStr ''#0000ff'') JNull))"

text \<open>The extractor answers with an empty title, no colour, and a datetime on the next
  morning.\<close>

definition untitled_world :: world where
  "untitled_world =
     (let doc = example_text (quoted []) ''null'' (quoted ''2024-01-02T09:00:00'')
      in example_world doc doc (example_object (JStr []) JNull (JStr ''2024-01-02T09:00:00'')))"


text \<open>The extractor wraps its JSON document in a Markdown code fence.\<close>

definition fenced_doc :: string where
  "fenced_doc = example_text (quoted ''lunch'') (quoted ''#0000ff'') (quoted ''2024-01-02T09:00:00'')"

definition fenced_world :: world where
  "fenced_world =
     example_world
       ([CHR 0x60, CHR 0x60, CHR 0x60] @ ''json'' @ [CHR 0x0A] @ fenced_doc @ [CHR 0x0A] @
        [CHR 0x60, CHR 0x60, CHR 0x60])
       fenced_doc
       (example_object (JStr ''lunch'') (JStr ''#0000ff'') (JStr ''2024-01-02T09:00:00''))"


section \<open>Evaluation and the log of calls\<close>

lemmas ev_color = hex_to_rgb_def py_int16_def skip_sign_def skip_0x_def strip_ws_def
  py_isspace_def digit_value_def COLOR_HEX_MAP_def rgb_dist_def

lemmas ev_time = example_reader_def
  localize_def isoformat_def isoformat_naive_def format_offset_def fmt_0d_def zero_pad_def
  show_nat.simps digit_char_def strftime_Ymd_def

lemmas ev_pipe = process_audio_def to_response_def io_bind_def io_call_def io_pure_def
  load_audio_def transcribe_and_go_def extract_and_create_def call_gpt_def get_access_token_def
  add_event_def event_dict_def json_loads_def json_ws_def value_start_def strip_fence_def
  type_in_def ALLOWED_TYPES_def WAV_TYPES_def py_or_def

lemmas ev_example = example_world_def example_request_def example_text_def example_object_def
  quoted_def

lemma io_bind_Inl: "io_bind (cs, Inl e) f = (cs, Inl e)"
  by (simp add: io_bind_def)

lemma io_bind_Inr: "io_bind (cs, Inr x) f = (cs @ fst (f x), snd (f x))"
  by (simp add: io_bind_def split: prod.splits)

lemma io_bind_pure_Inr: "io_bind (io_pure (Inr x)) f = f x"
  by (simp add: io_bind_def io_pure_def split: prod.splits)

lemma io_bind_pure_Inl: "io_bind (io_pure (Inl e)) f = ([], Inl e)"
  by (simp add: io_bind_def io_pure_def)

lemma load_audio_calls: "set (fst (load_audio w req)) \<subseteq> {Transcode, RecordAudio}"
  by (auto simp: load_audio_def io_bind_def io_call_def io_pure_def split: sum.splits prod.splits if_splits)

lemma call_gpt_calls:
  "fst (call_gpt w text) = [ChatCompletion (prompt (now w) text)] \<or>
   (\<exists>c. fst (call_gpt w text) = [ChatCompletion (prompt (now w) text), Print c])"
  by (auto simp: call_gpt_def io_bind_def io_call_def io_pure_def Let_def
      split: sum.splits prod.splits option.splits)

lemma add_event_calls:
  "fst (add_event w tok summary color d) =
     (case event_dict (zone w) summary color d of Inl e \<Rightarrow> [] | Inr ev \<Rightarrow> [EventRequest tok ev])"
  by (auto simp: add_event_def io_bind_def io_call_def io_pure_def split: sum.splits prod.splits)

lemma load_audio_no_calendar:
  assumes "load_audio w req = (cs1, r)"
  shows "TokenRequest \<notin> set cs1" "EventRequest tok ev \<notin> set cs1"
  using load_audio_calls[of w req] assms by auto

lemma call_gpt_no_calendar:
  assumes "call_gpt w text = (cs2, r)"
  shows "TokenRequest \<notin> set cs2" "EventRequest tok ev \<notin> set cs2"
  using call_gpt_calls[of w "text"] assms by auto

lemma process_audio_transcribed:
  assumes "authorization req = AUTH_PASSWORD w"
    and "type_in (content_type req) ALLOWED_TYPES"
    and "load_audio w req = (cs1, Inr audio)"
    and "recognize_google w audio = Inr text"
  shows "process_audio w req =
     to_response (cs1 @ RecognizeGoogle # fst (extract_and_create w text),
                  snd (extract_and_create w text))"
  using assms
  by (simp add: process_audio_def io_bind_Inr transcribe_and_go_def)

lemma extract_falsy:
  assumes "call_gpt w text = (cs2, Inr (JObj kvs))"
    and "\<not> truthy (case map_of kvs ''datetime'' of None \<Rightarrow> JNull | Some v \<Rightarrow> v)"
  shows "extract_and_create w text = (cs2, Inr (soft_body text))"
  using assms
  by (simp add: extract_and_create_def io_bind_Inr io_bind_pure_Inr soft_body_def io_pure_def)

lemma extract_truthy:
  assumes "call_gpt w text = (cs2, Inr (JObj kvs))"
    and "truthy (case map_of kvs ''datetime'' of None \<Rightarrow> JNull | Some v \<Rightarrow> v)"
  shows "extract_and_create w text =
     io_bind (cs2, Inr ()) (\<lambda>_.
       io_bind (get_access_token w) (\<lambda>access_token.
         io_bind (io_pure (fromisoformat (iso_reader w) (case map_of kvs ''datetime'' of None \<Rightarrow> JNull | Some v \<Rightarrow> v)))
           (\<lambda>start_dt.
             io_bind (add_event w access_token
                 (py_or (case map_of kvs ''title'' of None \<Rightarrow> JNull | Some v \<Rightarrow> v) (JStr ''No Title''))
                 (py_or (case map_of kvs ''color'' of None \<Rightarrow> JNull | Some v \<Rightarrow> v) (JStr ''#008080''))
                 start_dt)
               (\<lambda>event_result.
                  io_pure (Inr (JObj [(''text'', JStr text), (''parsed'', JObj kvs),
                                      (''calendar_event'', event_result)]))))))"
  using assms
  by (simp add: extract_and_create_def io_bind_Inr io_bind_pure_Inr Let_def)

lemma extract_truthy_cases:
  assumes "call_gpt w text = (cs2, Inr (JObj kvs))"
    and "truthy (case map_of kvs ''datetime'' of None \<Rightarrow> JNull | Some v \<Rightarrow> v)"
  shows "extract_and_create w text =
     (case token_request w of
        Inl e \<Rightarrow> (cs2 @ [TokenRequest], Inl e)
      | Inr body \<Rightarrow>
          (case dict_get body ''access_token'' of
             Inl e \<Rightarrow> (cs2 @ [TokenRequest], Inl e)
           | Inr tok \<Rightarrow>
               (case fromisoformat (iso_reader w) (case map_of kvs ''datetime'' of None \<Rightarrow> JNull | Some v \<Rightarrow> v) of
                  Inl e \<Rightarrow> (cs2 @ [TokenRequest], Inl e)
                | Inr start_dt \<Rightarrow>
                    (case event_dict (zone w)
                            (py_or (case map_of kvs ''title'' of None \<Rightarrow> JNull | Some v \<Rightarrow> v)
                               (JStr ''No Title''))
                            (py_or (case map_of kvs ''color'' of None \<Rightarrow> JNull | Some v \<Rightarrow> v)
                               (JStr ''#008080''))
                            start_dt of
                       Inl e \<Rightarrow> (cs2 @ [TokenRequest], Inl e)
                     | Inr ev \<Rightarrow>
                         (cs2 @ [TokenRequest, EventRequest tok ev],
                          (case event_request w tok ev of
                             Inl e \<Rightarrow> Inl e
                           | Inr event_result \<Rightarrow>
                               Inr (JObj [(''text'', JStr text), (''parsed'', JObj kvs),
                                          (''calendar_event'', event_result)])))))))"
  unfolding extract_truthy[OF assms]
  by (simp add: io_bind_def io_pure_def io_call_def get_access_token_def add_event_def
      split: sum.splits prod.splits)

lemma event_dict_summary:
  assumes "event_dict zn summary color_hex d = Inr ev"
  shows "dict_get ev ''summary'' = Inr summary"
proof (cases "localize zn d")
  case (Inl e)
  with assms show ?thesis by (simp add: event_dict_def)
next
  case (Inr localized)
  show ?thesis
  proof (cases "get_nearest_color_id (py_or color_hex (JStr ''#008080''))")
    case (Inl e)
    with assms Inr show ?thesis by (simp add: event_dict_def)
  next
    case inner: (Inr color_id)
    with assms Inr show ?thesis by (auto simp: event_dict_def Let_def)
  qed
qed

lemma example_auth: "authorization (example_request ''defaultpass'' ct) = AUTH_PASSWORD (example_world raw doc obj)"
  by (simp add: example_request_def example_world_def)

lemma example_wav: "type_in (content_type (example_request a ''audio/wav'')) ALLOWED_TYPES"
  by (simp add: example_request_def type_in_def ALLOWED_TYPES_def)

lemma example_load:
  "load_audio (example_world raw doc obj) (example_request a ''audio/wav'') = ([RecordAudio], Inr ''RIFF'')"
  by (simp add: load_audio_def example_request_def example_world_def type_in_def WAV_TYPES_def
      io_bind_def io_pure_def io_call_def)

lemma example_recognize:
  "recognize_google (example_world raw doc obj) audio = Inr ''lunch with sam tomorrow at noon in blue''"
  by (simp add: example_world_def)

lemma example_call_gpt:
  "call_gpt (example_world (example_text t c d) (example_text t c d) obj) text =
     ([ChatCompletion (prompt (now (example_world (example_text t c d) (example_text t c d) obj)) text),
       Print (example_text t c d)], Inr obj)"
  by (simp add: call_gpt_def example_world_def io_bind_def io_call_def io_pure_def
      strip_fence_def json_loads_def json_ws_def value_start_def example_text_def)

section \<open>The colour resolver\<close>

lemma hexdigit_plain:
  assumes "is_hexdigit c"
  shows "\<not> py_isspace c" "c \<noteq> CHR ''+''" "c \<noteq> CHR ''-''" "c \<noteq> CHR ''_''"
    "c \<noteq> CHR ''x''" "c \<noteq> CHR ''X''" "c \<noteq> CHR ''#''"
  using assms
  by (auto simp: is_hexdigit_def digit_value_def py_isspace_def Let_def split: if_splits)

lemma hexdigit_value:
  assumes "is_hexdigit c"
  shows "\<exists>d. digit_value c = Some d \<and> d < 16 \<and> hexval c = int d"
  using assms by (auto simp: is_hexdigit_def hexval_def split: option.splits)

lemma py_int16_two_digits:
  assumes "is_hexdigit a" "is_hexdigit b"
  shows "py_int16 [a, b] = Inr (16 * hexval a + hexval b)"
proof -
  obtain x where x: "digit_value a = Some x" "x < 16" "hexval a = int x"
    using hexdigit_value[OF assms(1)] by blast
  obtain y where y: "digit_value b = Some y" "y < 16" "hexval b = int y"
    using hexdigit_value[OF assms(2)] by blast
  have ws: "strip_ws [a, b] = [a, b]"
    using hexdigit_plain(1)[OF assms(1)] hexdigit_plain(1)[OF assms(2)]
    by (simp add: strip_ws_def)
  have sg: "skip_sign [a, b] = (1, [a, b])"
    using hexdigit_plain(2,3)[OF assms(1)] by (simp add: skip_sign_def)
  have px: "skip_0x [a, b] = [a, b]"
    using hexdigit_plain(5,6)[OF assms(2)] by (simp add: skip_0x_def)
  have dv: "digits_value 16 False 0 [a, b] = Some (16 * int x + int y)"
    using hexdigit_plain(4)[OF assms(1)] hexdigit_plain(4)[OF assms(2)] x y by simp
  show ?thesis
    using hexdigit_plain(4)[OF assms(1)] hexdigit_plain(4)[OF assms(2)]
    by (simp add: py_int16_def ws sg px dv x y)
qed

lemma hex6_elems:
  assumes "is_hex6 h"
  obtains a b c d e f where "h = [a, b, c, d, e, f]"
    "is_hexdigit a" "is_hexdigit b" "is_hexdigit c" "is_hexdigit d" "is_hexdigit e" "is_hexdigit f"
proof -
  from assms have len: "length h = 6" and all: "list_all is_hexdigit h"
    by (simp_all add: is_hex6_def)
  from len obtain a b c d e f where h: "h = [a, b, c, d, e, f]"
    by (auto simp: length_Suc_conv eval_nat_numeral)
  with all that show thesis by simp
qed

lemma hex_to_rgb_hex6:
  assumes "is_hex6 h" "s = h \<or> s = CHR ''#'' # h"
  shows "hex_to_rgb s = Inr (rgb_of_hex6 h)"
proof -
  from assms(1) obtain a b c d e f where h: "h = [a, b, c, d, e, f]"
    and d: "is_hexdigit a" "is_hexdigit b" "is_hexdigit c" "is_hexdigit d" "is_hexdigit e" "is_hexdigit f"
    by (rule hex6_elems)
  have strip: "dropWhile (\<lambda>c. c = CHR ''#'') s = h"
    using assms(2) hexdigit_plain(7)[OF d(1)] by (auto simp: h)
  show ?thesis
    by (simp add: hex_to_rgb_def strip Let_def)
       (simp add: h py_int16_two_digits d rgb_of_hex6_def)
qed

lemma rgb_dist_euclid: "rgb_dist t p = Fin (euclid t p)"
  by (simp add: rgb_dist_def euclid_def split: prod.splits)

lemma nearest_loop_split:
  assumes "list_all2 (\<lambda>e q. fst e = fst q \<and> hex_to_rgb (snd e) = Inr (snd q)) es ps"
    and "m0 = PosInf \<or> m0 = Fin r0"
  shows "\<exists>m b. nearest_loop t es (m0, b0) = Inr (m, b) \<and>
     ((m = m0 \<and> b = b0 \<and> (\<forall>q\<in>set ps. \<not> float_lt (Fin (euclid t (snd q))) m0)) \<or>
      (\<exists>pre cid p post. ps = pre @ (cid, p) # post \<and> b = cid \<and> m = Fin (euclid t p) \<and>
          float_lt m m0 \<and>
          (\<forall>q\<in>set pre. euclid t p < euclid t (snd q)) \<and>
          (\<forall>q\<in>set post. euclid t p \<le> euclid t (snd q))))"
  using assms
proof (induction es ps arbitrary: m0 b0 r0 rule: list_all2_induct)
  case Nil
  then show ?case by simp
next
  case (Cons e es q ps)
  obtain cid hx where e: "e = (cid, hx)" by (cases e)
  obtain p where q: "q = (cid, p)" and hx: "hex_to_rgb hx = Inr p"
    using Cons.hyps(1) e by (cases q) auto
  let ?d = "euclid t p"
  show ?case
  proof (cases "float_lt (Fin ?d) m0")
    case True
    have step: "nearest_loop t (e # es) (m0, b0) = nearest_loop t es (Fin ?d, cid)"
      using True by (simp add: e hx rgb_dist_euclid)
    from Cons.IH[of "Fin ?d" ?d cid]
    obtain m b where run: "nearest_loop t es (Fin ?d, cid) = Inr (m, b)"
      and alt: "(m = Fin ?d \<and> b = cid \<and> (\<forall>q\<in>set ps. \<not> float_lt (Fin (euclid t (snd q))) (Fin ?d))) \<or>
        (\<exists>pre c' p' post. ps = pre @ (c', p') # post \<and> b = c' \<and> m = Fin (euclid t p') \<and>
          float_lt m (Fin ?d) \<and>
          (\<forall>q\<in>set pre. euclid t p' < euclid t (snd q)) \<and>
          (\<forall>q\<in>set post. euclid t p' \<le> euclid t (snd q)))"
      by blast
    from alt show ?thesis
    proof
      assume a: "m = Fin ?d \<and> b = cid \<and> (\<forall>q\<in>set ps. \<not> float_lt (Fin (euclid t (snd q))) (Fin ?d))"
      have "q # ps = [] @ (cid, p) # ps" by (simp add: q)
      moreover have "\<forall>q\<in>set ps. ?d \<le> euclid t (snd q)" using a by auto
      ultimately have "\<exists>pre c' p' post. q # ps = pre @ (c', p') # post \<and> b = c' \<and> m = Fin (euclid t p') \<and>
          float_lt m m0 \<and>
          (\<forall>q\<in>set pre. euclid t p' < euclid t (snd q)) \<and>
          (\<forall>q\<in>set post. euclid t p' \<le> euclid t (snd q))"
        using a True
        by (intro exI[of _ "[]"] exI[of _ cid] exI[of _ p] exI[of _ ps]) simp
      then show ?thesis
        unfolding step run by (intro exI[of _ m] exI[of _ b] conjI disjI2) simp_all
    next
      assume "\<exists>pre c' p' post. ps = pre @ (c', p') # post \<and> b = c' \<and> m = Fin (euclid t p') \<and>
          float_lt m (Fin ?d) \<and>
          (\<forall>q\<in>set pre. euclid t p' < euclid t (snd q)) \<and>
          (\<forall>q\<in>set post. euclid t p' \<le> euclid t (snd q))"
      then obtain pre c' p' post where s: "ps = pre @ (c', p') # post" "b = c'" "m = Fin (euclid t p')"
          "float_lt m (Fin ?d)"
          "\<forall>q\<in>set pre. euclid t p' < euclid t (snd q)"
          "\<forall>q\<in>set post. euclid t p' \<le> euclid t (snd q)"
        by blast
      have lt: "euclid t p' < ?d" using s(3,4) by simp
      have split: "q # ps = (q # pre) @ (c', p') # post" by (simp add: s(1))
      have below: "float_lt m m0"
      proof (cases m0)
        case (Fin r1)
        then show ?thesis using True lt s(3) by simp
      next
        case PosInf
        then show ?thesis using s(3) by simp
      qed (use Cons.prems in simp_all)
      have pre: "\<forall>x\<in>set (q # pre). euclid t p' < euclid t (snd x)"
        using s(5) lt by (simp add: q)
      have "\<exists>pre c' p' post. q # ps = pre @ (c', p') # post \<and> b = c' \<and> m = Fin (euclid t p') \<and>
          float_lt m m0 \<and>
          (\<forall>q\<in>set pre. euclid t p' < euclid t (snd q)) \<and>
          (\<forall>q\<in>set post. euclid t p' \<le> euclid t (snd q))"
        using split s(2,3,6) below pre
        by (intro exI[of _ "q # pre"] exI[of _ c'] exI[of _ p'] exI[of _ post]) simp
      then show ?thesis
        unfolding step run by (intro exI[of _ m] exI[of _ b] conjI disjI2) simp_all
    qed
  next
    case False
    then obtain r where m0: "m0 = Fin r" and r: "r \<le> ?d"
      using Cons.prems by auto
    have step: "nearest_loop t (e # es) (m0, b0) = nearest_loop t es (m0, b0)"
      using False by (simp add: e hx rgb_dist_euclid)
    from Cons.IH[of m0 r b0]
    obtain m b where run: "nearest_loop t es (m0, b0) = Inr (m, b)"
      and alt: "(m = m0 \<and> b = b0 \<and> (\<forall>q\<in>set ps. \<not> float_lt (Fin (euclid t (snd q))) m0)) \<or>
        (\<exists>pre c' p' post. ps = pre @ (c', p') # post \<and> b = c' \<and> m = Fin (euclid t p') \<and>
          float_lt m m0 \<and>
          (\<forall>q\<in>set pre. euclid t p' < euclid t (snd q)) \<and>
          (\<forall>q\<in>set post. euclid t p' \<le> euclid t (snd q)))"
      using m0 by blast
    from alt show ?thesis
    proof
      assume a: "m = m0 \<and> b = b0 \<and> (\<forall>q\<in>set ps. \<not> float_lt (Fin (euclid t (snd q))) m0)"
      then show ?thesis
        unfolding step run using False by (intro exI[of _ m] exI[of _ b] conjI disjI1) (simp_all add: q)
    next
      assume "\<exists>pre c' p' post. ps = pre @ (c', p') # post \<and> b = c' \<and> m = Fin (euclid t p') \<and>
          float_lt m m0 \<and>
          (\<forall>q\<in>set pre. euclid t p' < euclid t (snd q)) \<and>
          (\<forall>q\<in>set post. euclid t p' \<le> euclid t (snd q))"
      then obtain pre c' p' post where s: "ps = pre @ (c', p') # post" "b = c'" "m = Fin (euclid t p')"
          "float_lt m m0"
          "\<forall>q\<in>set pre. euclid t p' < euclid t (snd q)"
          "\<forall>q\<in>set post. euclid t p' \<le> euclid t (snd q)"
        by blast
      have lt: "euclid t p' < ?d" using s(3,4) m0 r by simp
      have split: "q # ps = (q # pre) @ (c', p') # post" by (simp add: s(1))
      have pre: "\<forall>x\<in>set (q # pre). euclid t p' < euclid t (snd x)"
        using s(5) lt by (simp add: q)
      have "\<exists>pre c' p' post. q # ps = pre @ (c', p') # post \<and> b = c' \<and> m = Fin (euclid t p') \<and>
          float_lt m m0 \<and>
          (\<forall>q\<in>set pre. euclid t p' < euclid t (snd q)) \<and>
          (\<forall>q\<in>set post. euclid t p' \<le> euclid t (snd q))"
        using split s(2,3,6) s(4) pre
        by (intro exI[of _ "q # pre"] exI[of _ c'] exI[of _ p'] exI[of _ post]) simp
      then show ?thesis
        unfolding step run by (intro exI[of _ m] exI[of _ b] conjI disjI2) simp_all
    qed
  qed
qed

lemma palette_parses:
  "list_all2 (\<lambda>e q. fst e = fst q \<and> hex_to_rgb (snd e) = Inr (snd q)) COLOR_HEX_MAP PALETTE_RGB"
  by (simp add: COLOR_HEX_MAP_def PALETTE_RGB_def hex_to_rgb_def py_int16_def skip_sign_def
      skip_0x_def strip_ws_def py_isspace_def digit_value_def)

lemma palette_ids: "map fst PALETTE_RGB = map fst COLOR_HEX_MAP"
  by (simp add: COLOR_HEX_MAP_def PALETTE_RGB_def)

text \<open>
  Claim C2. For a colour of six hexadecimal digits, with or without one leading
  \<^verbatim>\<open>#\<close>, \<^verbatim>\<open>get_nearest_color_id\<close> returns the identifier of a palette entry at
  minimum Euclidean distance from it, and of the first such entry in the palette's order:
  every entry before the chosen one is strictly farther, every entry after it is at least
  as far. The result is one of the eleven identifiers. (It is a function of its input,
  so the same input gives the same output.)
\<close>

theorem nearest_color_is_first_minimum:
  assumes "is_hex6 h" and "s = h \<or> s = CHR ''#'' # h"
  shows "\<exists>pre cid p post.
       PALETTE_RGB = pre @ (cid, p) # post \<and>
       get_nearest_color_id (JStr s) = Inr cid \<and>
       (\<forall>q\<in>set pre. euclid (rgb_of_hex6 h) p < euclid (rgb_of_hex6 h) (snd q)) \<and>
       (\<forall>q\<in>set post. euclid (rgb_of_hex6 h) p \<le> euclid (rgb_of_hex6 h) (snd q)) \<and>
       cid \<in> fst ` set COLOR_HEX_MAP \<and> length COLOR_HEX_MAP = 11"
proof -
  let ?t = "rgb_of_hex6 h"
  have parse: "hex_to_rgb s = Inr ?t"
    using assms by (rule hex_to_rgb_hex6)
  from nearest_loop_split[OF palette_parses, of PosInf 0 ?t "''1''"]
  obtain m b where run: "nearest_loop ?t COLOR_HEX_MAP (PosInf, ''1'') = Inr (m, b)"
    and alt: "(m = PosInf \<and> b = ''1'' \<and>
          (\<forall>q\<in>set PALETTE_RGB. \<not> float_lt (Fin (euclid ?t (snd q))) PosInf)) \<or>
        (\<exists>pre cid p post. PALETTE_RGB = pre @ (cid, p) # post \<and> b = cid \<and>
          m = Fin (euclid ?t p) \<and> float_lt m PosInf \<and>
          (\<forall>q\<in>set pre. euclid ?t p < euclid ?t (snd q)) \<and>
          (\<forall>q\<in>set post. euclid ?t p \<le> euclid ?t (snd q)))"
    by blast
  have res: "get_nearest_color_id (JStr s) = Inr b"
    by (simp add: parse run)
  have nonempty: "(''1'', 164, 189, 252) \<in> set PALETTE_RGB"
    by (simp add: PALETTE_RGB_def)
  from alt obtain pre cid p post where s: "PALETTE_RGB = pre @ (cid, p) # post" "b = cid"
      "\<forall>q\<in>set pre. euclid ?t p < euclid ?t (snd q)"
      "\<forall>q\<in>set post. euclid ?t p \<le> euclid ?t (snd q)"
  proof
    assume "m = PosInf \<and> b = ''1'' \<and>
          (\<forall>q\<in>set PALETTE_RGB. \<not> float_lt (Fin (euclid ?t (snd q))) PosInf)"
    with nonempty have False by auto
    then show thesis ..
  next
    assume "\<exists>pre cid p post. PALETTE_RGB = pre @ (cid, p) # post \<and> b = cid \<and>
          m = Fin (euclid ?t p) \<and> float_lt m PosInf \<and>
          (\<forall>q\<in>set pre. euclid ?t p < euclid ?t (snd q)) \<and>
          (\<forall>q\<in>set post. euclid ?t p \<le> euclid ?t (snd q))"
    then show thesis using that by blast
  qed
  have "cid \<in> fst ` set PALETTE_RGB"
    by (simp add: s(1) image_Un)
  then have mem: "cid \<in> fst ` set COLOR_HEX_MAP"
    using palette_ids by (metis set_map)
  have len: "length COLOR_HEX_MAP = 11"
    by (simp add: COLOR_HEX_MAP_def)
  show ?thesis
    using s res mem len
    by (intro exI[of _ pre] exI[of _ cid] exI[of _ p] exI[of _ post]) simp
qed

theorem nearest_color_is_first_minimum_witness:
  "is_hex6 ''0000ff'' \<and>
   (\<exists>pre cid p post.
       PALETTE_RGB = pre @ (cid, p) # post \<and>
       get_nearest_color_id (JStr ''#0000ff'') = Inr cid \<and>
       (\<forall>q\<in>set pre. euclid (rgb_of_hex6 ''0000ff'') p < euclid (rgb_of_hex6 ''0000ff'') (snd q)) \<and>
       (\<forall>q\<in>set post. euclid (rgb_of_hex6 ''0000ff'') p \<le> euclid (rgb_of_hex6 ''0000ff'') (snd q)) \<and>
       cid \<in> fst ` set COLOR_HEX_MAP \<and> length COLOR_HEX_MAP = 11) \<and>
   get_nearest_color_id (JStr ''#0000ff'') = Inr ''9''"
proof -
  have h: "is_hex6 ''0000ff''"
    by (simp add: is_hex6_def is_hexdigit_def digit_value_def)
  have r: "get_nearest_color_id (JStr ''#0000ff'') = Inr ''9''"
    by (simp add: COLOR_HEX_MAP_def hex_to_rgb_def py_int16_def skip_sign_def
      skip_0x_def strip_ws_def py_isspace_def digit_value_def rgb_dist_def)
  show ?thesis
    using h r nearest_color_is_first_minimum[OF h, of "''#0000ff''"] by simp
qed

text \<open>
  Claim C4. The event built for a null colour, and the one built for an empty colour, is
  the event built for \<^verbatim>\<open>#008080\<close>: \<^verbatim>\<open>color_hex or "#008080"\<close> hands the resolver
  the default in both cases, and the resolver's answer for it is slot 10.
\<close>

theorem default_color_is_teal:
  "event_dict zn summary JNull d = event_dict zn summary (JStr ''#008080'') d \<and>
   event_dict zn summary (JStr []) d = event_dict zn summary (JStr ''#008080'') d \<and>
   get_nearest_color_id (py_or JNull (JStr ''#008080'')) = get_nearest_color_id (JStr ''#008080'') \<and>
   get_nearest_color_id (py_or (JStr []) (JStr ''#008080'')) = get_nearest_color_id (JStr ''#008080'') \<and>
   get_nearest_color_id (JStr ''#008080'') = Inr ''10''"
proof -
  have teal: "get_nearest_color_id (JStr ''#008080'') = Inr ''10''"
    by (simp add: ev_color)
  have p: "py_or JNull (JStr ''#008080'') = JStr ''#008080''"
    "py_or (JStr []) (JStr ''#008080'') = JStr ''#008080''"
    "py_or (JStr ''#008080'') (JStr ''#008080'') = JStr ''#008080''"
    by (simp_all add: py_or_def)
  have e1: "event_dict zn summary JNull d = event_dict zn summary (JStr ''#008080'') d"
    unfolding event_dict_def p ..
  have e2: "event_dict zn summary (JStr []) d = event_dict zn summary (JStr ''#008080'') d"
    unfolding event_dict_def p ..
  have g1: "get_nearest_color_id (py_or JNull (JStr ''#008080'')) =
            get_nearest_color_id (JStr ''#008080'')"
    unfolding p ..
  have g2: "get_nearest_color_id (py_or (JStr []) (JStr ''#008080'')) =
            get_nearest_color_id (JStr ''#008080'')"
    unfolding p ..
  from e1 e2 g1 g2 teal show ?thesis by (intro conjI)
qed

section \<open>Rejected requests and failed transcriptions\<close>

text \<open>
  Claim C7. A request whose \<^verbatim>\<open>Authorization\<close> header differs from the configured secret
  is answered with HTTP 401, whatever its media type is, and no call is made. An
  authorised request whose declared media type is not on the allow-list is answered with
  HTTP 400, and no call is made.
\<close>

theorem rejected_before_any_call:
  "(authorization req \<noteq> AUTH_PASSWORD w \<longrightarrow>
      process_audio w req = ([], HTTPException 401 ''Unauthorized'')) \<and>
   (authorization req = AUTH_PASSWORD w \<and> \<not> type_in (content_type req) ALLOWED_TYPES \<longrightarrow>
      process_audio w req = ([], HTTPException 400 ''Unsupported file type''))"
  by (simp add: process_audio_def)

theorem rejected_before_any_call_witness:
  "authorization (example_request ''guess'' ''video/mp4'') \<noteq> AUTH_PASSWORD past_world \<and>
   process_audio past_world (example_request ''guess'' ''video/mp4'') =
     ([], HTTPException 401 ''Unauthorized'') \<and>
   authorization (example_request ''defaultpass'' ''video/mp4'') = AUTH_PASSWORD past_world \<and>
   \<not> type_in (content_type (example_request ''defaultpass'' ''video/mp4'')) ALLOWED_TYPES \<and>
   process_audio past_world (example_request ''defaultpass'' ''video/mp4'') =
     ([], HTTPException 400 ''Unsupported file type'')"
proof -
  have a: "authorization (example_request ''guess'' ''video/mp4'') \<noteq> AUTH_PASSWORD past_world"
    by (simp add: example_request_def past_world_def example_world_def Let_def)
  have b: "authorization (example_request ''defaultpass'' ''video/mp4'') = AUTH_PASSWORD past_world"
    by (simp add: example_request_def past_world_def example_world_def Let_def)
  have c: "\<not> type_in (content_type (example_request ''defaultpass'' ''video/mp4'')) ALLOWED_TYPES"
    by (simp add: example_request_def type_in_def ALLOWED_TYPES_def)
  show ?thesis
    using a b c
      rejected_before_any_call[of "example_request ''guess'' ''video/mp4''" past_world]
      rejected_before_any_call[of "example_request ''defaultpass'' ''video/mp4''" past_world]
    by blast
qed

text \<open>
  Claim C8. When the recogniser raises \<^verbatim>\<open>UnknownValueError\<close> the endpoint returns the
  body \<^verbatim>\<open>{"text": "", "error": "Could not understand audio"}\<close>, and when it raises
  \<^verbatim>\<open>RequestError\<close> the body
  \<^verbatim>\<open>{"text": "", "error": "Speech Recognition service error"}\<close>. Both are returned
  values (HTTP 200), and the only calls made are those of the audio stage and the
  recogniser: none to the extractor, the token endpoint or the calendar.
\<close>

theorem recognizer_failures_are_soft:
  assumes "authorization req = AUTH_PASSWORD w"
    and "type_in (content_type req) ALLOWED_TYPES"
    and "load_audio w req = (cs, Inr audio)"
  shows "(recognize_google w audio = Inl UnknownValueError \<longrightarrow>
            process_audio w req =
              (cs @ [RecognizeGoogle],
               Returned (JObj [(''text'', JStr []), (''error'', JStr ''Could not understand audio'')]))) \<and>
         (recognize_google w audio = Inl RequestError \<longrightarrow>
            process_audio w req =
              (cs @ [RecognizeGoogle],
               Returned (JObj [(''text'', JStr []),
                               (''error'', JStr ''Speech Recognition service error'')]))) \<and>
         set (cs @ [RecognizeGoogle]) \<subseteq> {Transcode, RecordAudio, RecognizeGoogle}"
proof -
  have "set cs \<subseteq> {Transcode, RecordAudio}"
    using load_audio_calls[of w req] assms(3) by simp
  then have "set (cs @ [RecognizeGoogle]) \<subseteq> {Transcode, RecordAudio, RecognizeGoogle}"
    by auto
  then show ?thesis
    using assms
    by (simp add: process_audio_def io_bind_Inr transcribe_and_go_def to_response_def)
qed

theorem recognizer_failures_are_soft_witness:
  "process_audio (past_world\<lparr>recognize_google := (\<lambda>a. Inl UnknownValueError)\<rparr>)
       (example_request ''defaultpass'' ''audio/flac'') =
     ([Transcode, RecordAudio, RecognizeGoogle],
      Returned (JObj [(''text'', JStr []), (''error'', JStr ''Could not understand audio'')])) \<and>
   process_audio (past_world\<lparr>recognize_google := (\<lambda>a. Inl RequestError)\<rparr>)
       (example_request ''defaultpass'' ''audio/flac'') =
     ([Transcode, RecordAudio, RecognizeGoogle],
      Returned (JObj [(''text'', JStr []), (''error'', JStr ''Speech Recognition service error'')]))"
proof -
  let ?req = "example_request ''defaultpass'' ''audio/flac''"
  let ?wu = "past_world\<lparr>recognize_google := (\<lambda>a. Inl UnknownValueError)\<rparr>"
  let ?wr = "past_world\<lparr>recognize_google := (\<lambda>a. Inl RequestError)\<rparr>"
  have t: "type_in (content_type ?req) ALLOWED_TYPES"
    by (simp add: example_request_def type_in_def ALLOWED_TYPES_def)
  have au: "authorization ?req = AUTH_PASSWORD ?wu"
    by (simp add: example_request_def past_world_def example_world_def Let_def)
  have ar: "authorization ?req = AUTH_PASSWORD ?wr"
    by (simp add: example_request_def past_world_def example_world_def Let_def)
  have lu: "load_audio ?wu ?req = ([Transcode, RecordAudio], Inr ''RIFF'')"
    by (simp add: load_audio_def example_request_def past_world_def example_world_def Let_def
        type_in_def WAV_TYPES_def io_bind_def io_pure_def io_call_def)
  have lr: "load_audio ?wr ?req = ([Transcode, RecordAudio], Inr ''RIFF'')"
    by (simp add: load_audio_def example_request_def past_world_def example_world_def Let_def
        type_in_def WAV_TYPES_def io_bind_def io_pure_def io_call_def)
  have ru: "recognize_google ?wu ''RIFF'' = Inl UnknownValueError" by simp
  have rr: "recognize_google ?wr ''RIFF'' = Inl RequestError" by simp
  from recognizer_failures_are_soft[OF au t lu] recognizer_failures_are_soft[OF ar t lr] ru rr
  show ?thesis by simp
qed

section \<open>The extraction step\<close>

lemma json_loads_fence:
  assumes "take 3 raw = [CHR 0x60, CHR 0x60, CHR 0x60]"
  shows "json_loads scan raw = Inl JSONDecodeError"
proof -
  from assms obtain rest where raw: "raw = CHR 0x60 # CHR 0x60 # CHR 0x60 # rest"
    by (cases raw; cases "tl raw"; cases "tl (tl raw)") auto
  show ?thesis
    by (simp add: raw json_loads_def json_ws_def value_start_def)
qed

text \<open>
  Claim C9. \<^verbatim>\<open>call_gpt\<close> prints the fence-stripped text and returns
  \<^verbatim>\<open>json.loads\<close> of the message as it came. A message that starts with a code fence
  therefore ends in a \<^verbatim>\<open>JSONDecodeError\<close>, whatever the stripped text is.
\<close>

theorem call_gpt_parses_raw_content:
  assumes "chat_completion w (prompt (now w) text) = Inr (Some raw)"
  shows "call_gpt w text =
           ([ChatCompletion (prompt (now w) text), Print (strip_fence raw)],
            json_loads (json_scan w) raw) \<and>
         (take 3 raw = [CHR 0x60, CHR 0x60, CHR 0x60] \<longrightarrow>
            snd (call_gpt w text) = Inl JSONDecodeError)"
proof -
  have run: "call_gpt w text =
           ([ChatCompletion (prompt (now w) text), Print (strip_fence raw)],
            json_loads (json_scan w) raw)"
    using assms by (simp add: call_gpt_def io_bind_def io_call_def io_pure_def)
  show ?thesis
    by (simp add: run json_loads_fence)
qed

theorem call_gpt_parses_raw_content_witness:
  "strip_fence ([CHR 0x60, CHR 0x60, CHR 0x60] @ ''json'' @ [CHR 0x0A] @ fenced_doc @ [CHR 0x0A] @
        [CHR 0x60, CHR 0x60, CHR 0x60]) = fenced_doc \<and>
   json_loads (json_scan fenced_world) fenced_doc =
     Inr (example_object (JStr ''lunch'') (JStr ''#0000ff'') (JStr ''2024-01-02T09:00:00'')) \<and>
   call_gpt fenced_world ''lunch with sam tomorrow at noon in blue'' =
     ([ChatCompletion (prompt (now fenced_world) ''lunch with sam tomorrow at noon in blue''),
       Print fenced_doc], Inl JSONDecodeError) \<and>
   process_audio fenced_world (example_request ''defaultpass'' ''audio/wav'') =
     ([RecordAudio, RecognizeGoogle,
       ChatCompletion (prompt (now fenced_world) ''lunch with sam tomorrow at noon in blue''),
       Print fenced_doc], Unhandled JSONDecodeError)"
proof -
  let ?raw = "[CHR 0x60, CHR 0x60, CHR 0x60] @ ''json'' @ [CHR 0x0A] @ fenced_doc @ [CHR 0x0A] @
        [CHR 0x60, CHR 0x60, CHR 0x60]"
  let ?text = "''lunch with sam tomorrow at noon in blue''"
  have sf: "strip_fence ?raw = fenced_doc"
    by (simp add: strip_fence_def fenced_doc_def example_text_def quoted_def)
  have jl: "json_loads (json_scan fenced_world) fenced_doc =
     Inr (example_object (JStr ''lunch'') (JStr ''#0000ff'') (JStr ''2024-01-02T09:00:00''))"
    by (simp add: fenced_world_def example_world_def json_loads_def json_ws_def value_start_def
        fenced_doc_def example_text_def quoted_def)
  have chat: "chat_completion fenced_world (prompt (now fenced_world) ?text) = Inr (Some ?raw)"
    by (simp add: fenced_world_def example_world_def)
  have fence: "take 3 ?raw = [CHR 0x60, CHR 0x60, CHR 0x60]" by simp
  from call_gpt_parses_raw_content[OF chat] fence
  have cg: "call_gpt fenced_world ?text =
     ([ChatCompletion (prompt (now fenced_world) ?text), Print fenced_doc], Inl JSONDecodeError)"
    unfolding sf by (metis prod.collapse snd_conv fst_conv)
  have a: "authorization (example_request ''defaultpass'' ''audio/wav'') = AUTH_PASSWORD fenced_world"
    unfolding fenced_world_def by (rule example_auth)
  have l: "load_audio fenced_world (example_request ''defaultpass'' ''audio/wav'') =
             ([RecordAudio], Inr ''RIFF'')"
    unfolding fenced_world_def by (rule example_load)
  have r: "recognize_google fenced_world ''RIFF'' = Inr ?text"
    unfolding fenced_world_def by (rule example_recognize)
  have pa: "process_audio fenced_world (example_request ''defaultpass'' ''audio/wav'') =
     ([RecordAudio, RecognizeGoogle,
       ChatCompletion (prompt (now fenced_world) ?text), Print fenced_doc],
      Unhandled JSONDecodeError)"
    by (simp add: process_audio_transcribed[OF a example_wav l r] extract_and_create_def cg
        io_bind_Inl to_response_def)
  show ?thesis using sf jl cg pa by simp
qed

section \<open>The datetime check\<close>

text \<open>
  Claim C3. When the extractor's answer is an object whose \<^verbatim>\<open>datetime\<close> field is null
  or absent, the request ends with HTTP 200 and the body
  \<^verbatim>\<open>{"text": transcript, "error": "Invalid or past datetime in input"}\<close>; the calls made
  are those of the audio stage, the recogniser and the extractor, and neither a token
  request nor an event request is among them. The other fields of the answer do not
  occur in the statement: it holds whatever the title and the colour are.
\<close>

theorem null_datetime_short_circuits:
  assumes "authorization req = AUTH_PASSWORD w"
    and "type_in (content_type req) ALLOWED_TYPES"
    and "load_audio w req = (cs1, Inr audio)"
    and "recognize_google w audio = Inr text"
    and "call_gpt w text = (cs2, Inr (JObj kvs))"
    and "map_of kvs ''datetime'' = None \<or> map_of kvs ''datetime'' = Some JNull"
  shows "process_audio w req = (cs1 @ RecognizeGoogle # cs2, Returned (soft_body text)) \<and>
         status_code (snd (process_audio w req)) = 200 \<and>
         TokenRequest \<notin> set (fst (process_audio w req)) \<and>
         (\<forall>tok ev. EventRequest tok ev \<notin> set (fst (process_audio w req)))"
proof -
  have falsy: "\<not> truthy (case map_of kvs ''datetime'' of None \<Rightarrow> JNull | Some v \<Rightarrow> v)"
    using assms(6) by auto
  have run: "process_audio w req = (cs1 @ RecognizeGoogle # cs2, Returned (soft_body text))"
    by (simp add: process_audio_transcribed[OF assms(1-4)] extract_falsy[OF assms(5) falsy]
        to_response_def)
  show ?thesis
    using load_audio_no_calendar[OF assms(3)] call_gpt_no_calendar[OF assms(5)]
    by (simp add: run)
qed

theorem null_datetime_short_circuits_witness:
  "process_audio null_world (example_request ''defaultpass'' ''audio/wav'') =
     ([RecordAudio, RecognizeGoogle,
       ChatCompletion (prompt (now null_world) ''lunch with sam tomorrow at noon in blue''),
       Print (example_text (quoted ''lunch'') (quoted ''#0000ff'') ''null'')],
      Returned (soft_body ''lunch with sam tomorrow at noon in blue'')) \<and>
   TokenRequest \<notin> set (fst (process_audio null_world (example_request ''defaultpass'' ''audio/wav'')))"
proof -
  have g: "call_gpt null_world ''lunch with sam tomorrow at noon in blue'' =
     ([ChatCompletion (prompt (now null_world) ''lunch with sam tomorrow at noon in blue''),
       Print (example_text (quoted ''lunch'') (quoted ''#0000ff'') ''null'')],
      Inr (JObj [(''title'', JStr ''lunch''), (''color'', JStr ''#0000ff''), (''datetime'', JNull)]))"
    unfolding null_world_def Let_def by (simp add: example_call_gpt example_object_def)
  have n: "map_of [(''title'', JStr ''lunch''), (''color'', JStr ''#0000ff''), (''datetime'', JNull)]
             ''datetime'' = None \<or>
           map_of [(''title'', JStr ''lunch''), (''color'', JStr ''#0000ff''), (''datetime'', JNull)]
             ''datetime'' = Some JNull"
    by simp
  have a: "authorization (example_request ''defaultpass'' ''audio/wav'') = AUTH_PASSWORD null_world"
    unfolding null_world_def Let_def by (rule example_auth)
  have l: "load_audio null_world (example_request ''defaultpass'' ''audio/wav'') =
             ([RecordAudio], Inr ''RIFF'')"
    unfolding null_world_def Let_def by (rule example_load)
  have r: "recognize_google null_world ''RIFF'' = Inr ''lunch with sam tomorrow at noon in blue''"
    unfolding null_world_def Let_def by (rule example_recognize)
  from null_datetime_short_circuits[OF a example_wav l r g n]
  show ?thesis by simp
qed

text \<open>
  Claim C1, as the code has it. The endpoint returns the soft outcome exactly when the
  extracted \<^verbatim>\<open>datetime\<close> field is null, absent or otherwise false (\<^verbatim>\<open>not dt\<close>);
  then nothing is called after the extractor. A datetime that is not false is never
  compared with the clock: the next call is the token request, whatever \<open>now\<close> is.
\<close>

theorem datetime_check_is_null_check_only:
  assumes "authorization req = AUTH_PASSWORD w"
    and "type_in (content_type req) ALLOWED_TYPES"
    and "load_audio w req = (cs1, Inr audio)"
    and "recognize_google w audio = Inr text"
    and "call_gpt w text = (cs2, Inr (JObj kvs))"
    and "dt = (case map_of kvs ''datetime'' of None \<Rightarrow> JNull | Some v \<Rightarrow> v)"
  shows "((snd (process_audio w req) = Returned (soft_body text)) = (\<not> truthy dt)) \<and>
         (\<not> truthy dt \<longrightarrow> fst (process_audio w req) = cs1 @ RecognizeGoogle # cs2) \<and>
         (truthy dt \<longrightarrow>
            (\<exists>rest. fst (process_audio w req) = cs1 @ RecognizeGoogle # cs2 @ TokenRequest # rest))"
proof (cases "truthy dt")
  case False
  then have falsy: "\<not> truthy (case map_of kvs ''datetime'' of None \<Rightarrow> JNull | Some v \<Rightarrow> v)"
    using assms(6) by simp
  show ?thesis
    using False
    by (simp add: process_audio_transcribed[OF assms(1-4)] extract_falsy[OF assms(5) falsy]
        to_response_def)
next
  case True
  then have tr: "truthy (case map_of kvs ''datetime'' of None \<Rightarrow> JNull | Some v \<Rightarrow> v)"
    using assms(6) by simp
  show ?thesis
    using True
    by (simp add: process_audio_transcribed[OF assms(1-4)] extract_truthy_cases[OF assms(5) tr]
        to_response_def soft_body_def split: sum.splits)
qed

text \<open>
  The clock shows 15:00:00 and the extractor answers 14:59:59 of the same day: the
  endpoint acquires a token and creates the event.
\<close>

theorem past_datetime_creates_event:
  "now past_world = \<lparr>year = 2024, month = 1, day = 1, hour = 15, minute = 0, second = 0,
                      microsecond = 0, tzinfo = None\<rparr> \<and>
   process_audio past_world (example_request ''defaultpass'' ''audio/wav'') =
     ([RecordAudio, RecognizeGoogle,
       ChatCompletion (prompt (now past_world) ''lunch with sam tomorrow at noon in blue''),
       Print (example_text (quoted ''lunch'') (quoted ''#0000ff'') (quoted ''2024-01-01T14:59:59'')),
       TokenRequest,
       EventRequest (JStr ''ya29'')
         (JObj [(''summary'', JStr ''lunch''),
                (''start'', JObj [(''dateTime'', JStr ''2024-01-01T14:59:59-05:00''),
                                  (''timeZone'', JStr ''America/New_York'')]),
                (''end'', JObj [(''dateTime'', JStr ''2024-01-01T14:59:59-05:00''),
                                (''timeZone'', JStr ''America/New_York'')]),
                (''colorId'', JStr ''9'')])],
      Returned
        (JObj [(''text'', JStr ''lunch with sam tomorrow at noon in blue''),
               (''parsed'', example_object (JStr ''lunch'') (JStr ''#0000ff'')
                              (JStr ''2024-01-01T14:59:59'')),
               (''calendar_event'', JObj [(''status'', JStr ''confirmed'')])])) \<and>
   snd (process_audio past_world (example_request ''defaultpass'' ''audio/wav'')) \<noteq>
     Returned (soft_body ''lunch with sam tomorrow at noon in blue'')"
  by (simp add: past_world_def ev_example ev_pipe ev_time ev_color Let_def soft_body_def)

theorem datetime_check_is_null_check_only_witness:
  "truthy (JStr ''2024-01-01T14:59:59'') \<and>
   snd (process_audio past_world (example_request ''defaultpass'' ''audio/wav'')) \<noteq>
     Returned (soft_body ''lunch with sam tomorrow at noon in blue'') \<and>
   (\<exists>rest. fst (process_audio past_world (example_request ''defaultpass'' ''audio/wav'')) =
     [RecordAudio, RecognizeGoogle,
      ChatCompletion (prompt (now past_world) ''lunch with sam tomorrow at noon in blue''),
      Print (example_text (quoted ''lunch'') (quoted ''#0000ff'') (quoted ''2024-01-01T14:59:59'')),
      TokenRequest] @ rest) \<and>
   \<not> truthy JNull \<and>
   snd (process_audio null_world (example_request ''defaultpass'' ''audio/wav'')) =
     Returned (soft_body ''lunch with sam tomorrow at noon in blue'')"
proof -
  let ?req = "example_request ''defaultpass'' ''audio/wav''"
  let ?text = "''lunch with sam tomorrow at noon in blue''"
  have gp: "call_gpt past_world ?text =
     ([ChatCompletion (prompt (now past_world) ?text),
       Print (example_text (quoted ''lunch'') (quoted ''#0000ff'') (quoted ''2024-01-01T14:59:59''))],
      Inr (JObj [(''title'', JStr ''lunch''), (''color'', JStr ''#0000ff''),
                 (''datetime'', JStr ''2024-01-01T14:59:59'')]))"
    unfolding past_world_def Let_def by (simp add: example_call_gpt example_object_def)
  have ap: "authorization ?req = AUTH_PASSWORD past_world"
    unfolding past_world_def Let_def by (rule example_auth)
  have lp: "load_audio past_world ?req = ([RecordAudio], Inr ''RIFF'')"
    unfolding past_world_def Let_def by (rule example_load)
  have rp: "recognize_google past_world ''RIFF'' = Inr ?text"
    unfolding past_world_def Let_def by (rule example_recognize)
  have dp: "JStr ''2024-01-01T14:59:59'' =
      (case map_of [(''title'', JStr ''lunch''), (''color'', JStr ''#0000ff''),
                    (''datetime'', JStr ''2024-01-01T14:59:59'')] ''datetime'' of
         None \<Rightarrow> JNull | Some v \<Rightarrow> v)"
    by simp
  have gn: "call_gpt null_world ?text =
     ([ChatCompletion (prompt (now null_world) ?text),
       Print (example_text (quoted ''lunch'') (quoted ''#0000ff'') ''null'')],
      Inr (JObj [(''title'', JStr ''lunch''), (''color'', JStr ''#0000ff''), (''datetime'', JNull)]))"
    unfolding null_world_def Let_def by (simp add: example_call_gpt example_object_def)
  have an: "authorization ?req = AUTH_PASSWORD null_world"
    unfolding null_world_def Let_def by (rule example_auth)
  have ln: "load_audio null_world ?req = ([RecordAudio], Inr ''RIFF'')"
    unfolding null_world_def Let_def by (rule example_load)
  have rn: "recognize_google null_world ''RIFF'' = Inr ?text"
    unfolding null_world_def Let_def by (rule example_recognize)
  have dn: "JNull =
      (case map_of [(''title'', JStr ''lunch''), (''color'', JStr ''#0000ff''),
                    (''datetime'', JNull)] ''datetime'' of
         None \<Rightarrow> JNull | Some v \<Rightarrow> v)"
    by simp
  from datetime_check_is_null_check_only[OF ap example_wav lp rp gp dp]
       datetime_check_is_null_check_only[OF an example_wav ln rn gn dn]
  show ?thesis by simp
qed

section \<open>The event that is sent\<close>

lemma format_offset_minutes:
  "format_offset (m * 60000000) =
     (if m < 0 then ''-'' else ''+'') @ fmt_0d 2 (\<bar>m\<bar> div 60) @ '':'' @ fmt_0d 2 (\<bar>m\<bar> mod 60)"
proof -
  have a: "\<bar>m * 60000000\<bar> = \<bar>m\<bar> * 60000000" by (simp add: abs_mult)
  have h: "(\<bar>m\<bar> * 60000000) div 3600000000 = \<bar>m\<bar> div 60" by simp
  have mi: "((\<bar>m\<bar> * 60000000) mod 3600000000) div 60000000 = \<bar>m\<bar> mod 60"
  proof -
    have "(\<bar>m\<bar> * 60000000) mod (60 * 60000000) = (\<bar>m\<bar> mod 60) * 60000000"
      by (rule mult_mod_left[symmetric])
    then show ?thesis by simp
  qed
  have s: "((\<bar>m\<bar> * 60000000) mod 60000000) div 1000000 = 0" by simp
  have u: "(\<bar>m\<bar> * 60000000) mod 1000000 = 0" by simp
  have neg: "(m * 60000000 < 0) = (m < 0)" by (simp add: mult_less_0_iff)
  show ?thesis
    unfolding format_offset_def Let_def a h mi s u neg by simp
qed

lemma isoformat_localized:
  "isoformat (d\<lparr>tzinfo := Some off\<rparr>) = isoformat_naive d @ format_offset off"
  by (simp add: isoformat_def isoformat_naive_def)

text \<open>
  Claim C5. Every event that \<^verbatim>\<open>add_event\<close> sends has equal \<^verbatim>\<open>start\<close> and
  \<^verbatim>\<open>end\<close> fields; their \<^verbatim>\<open>dateTime\<close> is the ISO text of the naive input datetime
  (its wall-clock time unchanged) followed by the zone's offset at that time, written
  \<^verbatim>\<open>+HH:MM\<close> or \<^verbatim>\<open>-HH:MM\<close>; and the input was naive.
\<close>

theorem event_start_end_localized:
  assumes "EventRequest tok ev \<in> set (fst (add_event w access_token summary color_hex d))"
  shows "tzinfo d = None \<and>
         dict_get ev ''start'' = dict_get ev ''end'' \<and>
         dict_get ev ''start'' =
           Inr (JObj [(''dateTime'',
                       JStr (isoformat_naive d @ (if zone w d < 0 then ''-'' else ''+'') @
                             fmt_0d 2 (\<bar>zone w d\<bar> div 60) @ '':'' @ fmt_0d 2 (\<bar>zone w d\<bar> mod 60))),
                      (''timeZone'', JStr ''America/New_York'')])"
proof -
  from assms have ed: "event_dict (zone w) summary color_hex d = Inr ev"
    by (auto simp: add_event_calls split: sum.splits)
  then obtain localized where loc: "localize (zone w) d = Inr localized"
    by (auto simp: event_dict_def split: sum.splits)
  then have naive: "tzinfo d = None"
    and l: "localized = d\<lparr>tzinfo := Some (zone w d * 60000000)\<rparr>"
    by (auto simp: localize_def split: if_splits)
  have iso: "isoformat localized =
      isoformat_naive d @ (if zone w d < 0 then ''-'' else ''+'') @
      fmt_0d 2 (\<bar>zone w d\<bar> div 60) @ '':'' @ fmt_0d 2 (\<bar>zone w d\<bar> mod 60)"
    unfolding l isoformat_localized format_offset_minutes ..
  from ed obtain color_id where ev: "ev =
      JObj [(''summary'', summary),
            (''start'', JObj [(''dateTime'', JStr (isoformat localized)),
                              (''timeZone'', JStr ''America/New_York'')]),
            (''end'', JObj [(''dateTime'', JStr (isoformat localized)),
                            (''timeZone'', JStr ''America/New_York'')]),
            (''colorId'', JStr color_id)]"
    unfolding event_dict_def loc Let_def by (auto split: sum.splits)
  have st: "dict_get ev ''start'' =
      Inr (JObj [(''dateTime'', JStr (isoformat localized)),
                 (''timeZone'', JStr ''America/New_York'')])"
    and en: "dict_get ev ''end'' =
      Inr (JObj [(''dateTime'', JStr (isoformat localized)),
                 (''timeZone'', JStr ''America/New_York'')])"
    unfolding ev by simp_all
  show ?thesis
    unfolding st en iso using naive by simp
qed

theorem event_start_end_localized_witness:
  "EventRequest (JStr ''ya29'')
     (JObj [(''summary'', JStr ''lunch''),
            (''start'', JObj [(''dateTime'', JStr ''2024-01-02T09:00:00-05:00''),
                              (''timeZone'', JStr ''America/New_York'')]),
            (''end'', JObj [(''dateTime'', JStr ''2024-01-02T09:00:00-05:00''),
                            (''timeZone'', JStr ''America/New_York'')]),
            (''colorId'', JStr ''9'')])
     \<in> set (fst (add_event past_world (JStr ''ya29'') (JStr ''lunch'') (JStr ''#0000ff'')
          \<lparr>year = 2024, month = 1, day = 2, hour = 9, minute = 0, second = 0,
             microsecond = 0, tzinfo = None\<rparr>)) \<and>
   isoformat_naive \<lparr>year = 2024, month = 1, day = 2, hour = 9, minute = 0, second = 0,
             microsecond = 0, tzinfo = None\<rparr> @ (if zone past_world \<lparr>year = 2024, month = 1, day = 2, hour = 9, minute = 0, second = 0,
             microsecond = 0, tzinfo = None\<rparr> < 0 then ''-'' else ''+'') @
      fmt_0d 2 (\<bar>zone past_world \<lparr>year = 2024, month = 1, day = 2, hour = 9, minute = 0, second = 0,
             microsecond = 0, tzinfo = None\<rparr>\<bar> div 60) @ '':'' @
      fmt_0d 2 (\<bar>zone past_world \<lparr>year = 2024, month = 1, day = 2, hour = 9, minute = 0, second = 0,
             microsecond = 0, tzinfo = None\<rparr>\<bar> mod 60) = ''2024-01-02T09:00:00-05:00''"
proof -
  let ?d = "\<lparr>year = 2024, month = 1, day = 2, hour = 9, minute = 0, second = 0,
             microsecond = 0, tzinfo = None\<rparr>"
  let ?ev = "JObj [(''summary'', JStr ''lunch''),
            (''start'', JObj [(''dateTime'', JStr ''2024-01-02T09:00:00-05:00''),
                              (''timeZone'', JStr ''America/New_York'')]),
            (''end'', JObj [(''dateTime'', JStr ''2024-01-02T09:00:00-05:00''),
                            (''timeZone'', JStr ''America/New_York'')]),
            (''colorId'', JStr ''9'')]"
  have sent: "EventRequest (JStr ''ya29'') ?ev
     \<in> set (fst (add_event past_world (JStr ''ya29'') (JStr ''lunch'') (JStr ''#0000ff'') ?d))"
    by (simp add: past_world_def ev_example ev_pipe ev_time ev_color Let_def)
  from event_start_end_localized[OF sent] sent
  show ?thesis by simp
qed

text \<open>
  Claim C6. Whenever the endpoint sends an event, its \<^verbatim>\<open>summary\<close> is
  \<^verbatim>\<open>gpt_data.get("title") or "No Title"\<close>: the literal \<^verbatim>\<open>No Title\<close> when the title is
  null, absent or the empty string, and the title itself, unchanged, when it is a
  non-empty string.
\<close>

theorem summary_is_title_or_No_Title:
  assumes "authorization req = AUTH_PASSWORD w"
    and "type_in (content_type req) ALLOWED_TYPES"
    and "load_audio w req = (cs1, Inr audio)"
    and "recognize_google w audio = Inr text"
    and "call_gpt w text = (cs2, Inr (JObj kvs))"
    and "title = (case map_of kvs ''title'' of None \<Rightarrow> JNull | Some v \<Rightarrow> v)"
    and "EventRequest tok ev \<in> set (fst (process_audio w req))"
  shows "dict_get ev ''summary'' = Inr (py_or title (JStr ''No Title'')) \<and>
         (title = JNull \<or> title = JStr [] \<longrightarrow> dict_get ev ''summary'' = Inr (JStr ''No Title'')) \<and>
         (\<forall>s. title = JStr s \<and> s \<noteq> [] \<longrightarrow> dict_get ev ''summary'' = Inr (JStr s))"
proof -
  let ?dt = "case map_of kvs ''datetime'' of None \<Rightarrow> JNull | Some v \<Rightarrow> v"
  have calls: "fst (process_audio w req) = cs1 @ RecognizeGoogle # fst (extract_and_create w text)"
    by (simp add: process_audio_transcribed[OF assms(1-4)] to_response_def split: sum.splits)
  have in_x: "EventRequest tok ev \<in> set (fst (extract_and_create w text))"
    using assms(7) load_audio_no_calendar(2)[OF assms(3)] by (simp add: calls)
  have tr: "truthy ?dt"
  proof (rule ccontr)
    assume "\<not> truthy ?dt"
    then have "fst (extract_and_create w text) = cs2"
      by (simp add: extract_falsy[OF assms(5)])
    with in_x call_gpt_no_calendar(2)[OF assms(5)] show False by simp
  qed
  from in_x have "\<exists>start_dt. event_dict (zone w) (py_or title (JStr ''No Title''))
        (py_or (case map_of kvs ''color'' of None \<Rightarrow> JNull | Some v \<Rightarrow> v) (JStr ''#008080''))
        start_dt = Inr ev"
    using call_gpt_no_calendar(2)[OF assms(5)]
    by (auto simp: extract_truthy_cases[OF assms(5) tr] assms(6) split: sum.splits)
  then have "dict_get ev ''summary'' = Inr (py_or title (JStr ''No Title''))"
    using event_dict_summary by blast
  then show ?thesis
    by (auto simp: py_or_def)
qed

theorem summary_is_title_or_No_Title_witness:
  "EventRequest (JStr ''ya29'')
     (JObj [(''summary'', JStr ''No Title''),
            (''start'', JObj [(''dateTime'', JStr ''2024-01-02T09:00:00-05:00''),
                              (''timeZone'', JStr ''America/New_York'')]),
            (''end'', JObj [(''dateTime'', JStr ''2024-01-02T09:00:00-05:00''),
                            (''timeZone'', JStr ''America/New_York'')]),
            (''colorId'', JStr ''10'')])
     \<in> set (fst (process_audio untitled_world (example_request ''defaultpass'' ''audio/wav''))) \<and>
   py_or (JStr []) (JStr ''No Title'') = JStr ''No Title'' \<and>
   EventRequest (JStr ''ya29'')
     (JObj [(''summary'', JStr ''lunch''),
            (''start'', JObj [(''dateTime'', JStr ''2024-01-01T14:59:59-05:00''),
                              (''timeZone'', JStr ''America/New_York'')]),
            (''end'', JObj [(''dateTime'', JStr ''2024-01-01T14:59:59-05:00''),
                            (''timeZone'', JStr ''America/New_York'')]),
            (''colorId'', JStr ''9'')])
     \<in> set (fst (process_audio past_world (example_request ''defaultpass'' ''audio/wav''))) \<and>
   py_or (JStr ''lunch'') (JStr ''No Title'') = JStr ''lunch''"
proof -
  let ?req = "example_request ''defaultpass'' ''audio/wav''"
  let ?text = "''lunch with sam tomorrow at noon in blue''"
  let ?evu = "JObj [(''summary'', JStr ''No Title''),
            (''start'', JObj [(''dateTime'', JStr ''2024-01-02T09:00:00-05:00''),
                              (''timeZone'', JStr ''America/New_York'')]),
            (''end'', JObj [(''dateTime'', JStr ''2024-01-02T09:00:00-05:00''),
                            (''timeZone'', JStr ''America/New_York'')]),
            (''colorId'', JStr ''10'')]"
  let ?evp = "JObj [(''summary'', JStr ''lunch''),
            (''start'', JObj [(''dateTime'', JStr ''2024-01-01T14:59:59-05:00''),
                              (''timeZone'', JStr ''America/New_York'')]),
            (''end'', JObj [(''dateTime'', JStr ''2024-01-01T14:59:59-05:00''),
                            (''timeZone'', JStr ''America/New_York'')]),
            (''colorId'', JStr ''9'')]"
  have su: "EventRequest (JStr ''ya29'') ?evu \<in> set (fst (process_audio untitled_world ?req))"
    by (simp add: untitled_world_def ev_example ev_pipe ev_time ev_color Let_def)
  have sp: "EventRequest (JStr ''ya29'') ?evp \<in> set (fst (process_audio past_world ?req))"
    by (simp add: past_world_def ev_example ev_pipe ev_time ev_color Let_def)
  have gu: "call_gpt untitled_world ?text =
     ([ChatCompletion (prompt (now untitled_world) ?text),
       Print (example_text (quoted []) ''null'' (quoted ''2024-01-02T09:00:00''))],
      Inr (JObj [(''title'', JStr []), (''color'', JNull),
                 (''datetime'', JStr ''2024-01-02T09:00:00'')]))"
    unfolding untitled_world_def Let_def by (simp add: example_call_gpt example_object_def)
  have gp: "call_gpt past_world ?text =
     ([ChatCompletion (prompt (now past_world) ?text),
       Print (example_text (quoted ''lunch'') (quoted ''#0000ff'') (quoted ''2024-01-01T14:59:59''))],
      Inr (JObj [(''title'', JStr ''lunch''), (''color'', JStr ''#0000ff''),
                 (''datetime'', JStr ''2024-01-01T14:59:59'')]))"
    unfolding past_world_def Let_def by (simp add: example_call_gpt example_object_def)
  have au: "authorization ?req = AUTH_PASSWORD untitled_world"
    unfolding untitled_world_def Let_def by (rule example_auth)
  have lu: "load_audio untitled_world ?req = ([RecordAudio], Inr ''RIFF'')"
    unfolding untitled_world_def Let_def by (rule example_load)
  have ru: "recognize_google untitled_world ''RIFF'' = Inr ?text"
    unfolding untitled_world_def Let_def by (rule example_recognize)
  have ap: "authorization ?req = AUTH_PASSWORD past_world"
    unfolding past_world_def Let_def by (rule example_auth)
  have lp: "load_audio past_world ?req = ([RecordAudio], Inr ''RIFF'')"
    unfolding past_world_def Let_def by (rule example_load)
  have rp: "recognize_google past_world ''RIFF'' = Inr ?text"
    unfolding past_world_def Let_def by (rule example_recognize)
  have tu: "JStr [] = (case map_of [(''title'', JStr []), (''color'', JNull),
                 (''datetime'', JStr ''2024-01-02T09:00:00'')] ''title'' of
               None \<Rightarrow> JNull | Some v \<Rightarrow> v)"
    by simp
  have tp: "JStr ''lunch'' = (case map_of [(''title'', JStr ''lunch''), (''color'', JStr ''#0000ff''),
                 (''datetime'', JStr ''2024-01-01T14:59:59'')] ''title'' of
               None \<Rightarrow> JNull | Some v \<Rightarrow> v)"
    by simp
  from summary_is_title_or_No_Title[OF au example_wav lu ru gu tu su]
       summary_is_title_or_No_Title[OF ap example_wav lp rp gp tp sp] su sp
  show ?thesis by simp
qed

section \<open>Aware datetimes\<close>



end
